theory Spec2Isabelle
  imports Complex_Main
begin

section \<open>Python values, exceptions and effects\<close>

text \<open>
  The exception classes the handlers of the program tell apart. A constructor stands for
  the class and its subclasses that are not listed on their own; \<open>Exception\<close> is any
  other class derived from Python's \<open>Exception\<close>. \<open>KeyboardInterrupt\<close> and
  \<open>SystemExit\<close> derive from \<open>BaseException\<close> only, so \<open>except Exception\<close> does not
  catch them. \<open>requests.exceptions.RequestException\<close> derives from \<open>IOError\<close>, which is
  \<open>OSError\<close>.
\<close>

datatype exn =
    KeyboardInterrupt
  | SystemExit int
  | RequestError
  | RequestException
  | OSError
  | ValueError string
  | KeyError string
  | IndexError
  | TypeError
  | AttributeError
  | Exception string

fun is_Exception :: "exn \<Rightarrow> bool" where
  "is_Exception KeyboardInterrupt = False"
| "is_Exception (SystemExit c) = False"
| "is_Exception e = True"

fun is_request_error :: "exn \<Rightarrow> bool" where
  "is_request_error RequestError = True"
| "is_request_error RequestException = True"
| "is_request_error e = False"

fun is_OSError :: "exn \<Rightarrow> bool" where
  "is_OSError OSError = True"
| "is_OSError RequestException = True"
| "is_OSError e = False"

text \<open>What \<open>json.loads\<close> returns: a dict keeps its keys in an association list.\<close>

datatype json =
    JNull
  | JBool bool
  | JInt int
  | JFloat real
  | JStr string
  | JList "json list"
  | JDict "(string \<times> json) list"

text \<open>Python's truth value of an object, as \<open>if x:\<close> tests it.\<close>

fun truthy :: "json \<Rightarrow> bool" where
  "truthy JNull = False"
| "truthy (JBool b) = b"
| "truthy (JInt n) = (n \<noteq> 0)"
| "truthy (JFloat r) = (r \<noteq> 0)"
| "truthy (JStr s) = (s \<noteq> [])"
| "truthy (JList xs) = (xs \<noteq> [])"
| "truthy (JDict kvs) = (kvs \<noteq> [])"

text \<open>\<open>d.get(key, default)\<close>: only a dict has the method.\<close>

fun dict_get :: "json \<Rightarrow> string \<Rightarrow> json \<Rightarrow> exn + json" where
  "dict_get (JDict kvs) k dflt = Inr (case map_of kvs k of None \<Rightarrow> dflt | Some v \<Rightarrow> v)"
| "dict_get v k dflt = Inl AttributeError"

text \<open>\<open>d[key]\<close> with a string key: a dict raises KeyError on a missing key, every other
  JSON value raises TypeError.\<close>

fun subscript :: "json \<Rightarrow> string \<Rightarrow> exn + json" where
  "subscript (JDict kvs) k = (case map_of kvs k of None \<Rightarrow> Inl (KeyError k) | Some v \<Rightarrow> Inr v)"
| "subscript v k = Inl TypeError"

text \<open>\<open>str(x)\<close> as an f-string renders it: a string is itself; the rendering of numbers
  and containers is left to the parameter \<open>other\<close>.\<close>

fun py_str :: "(json \<Rightarrow> string) \<Rightarrow> json \<Rightarrow> string" where
  "py_str other (JStr s) = s"
| "py_str other JNull = ''None''"
| "py_str other (JBool b) = (if b then ''True'' else ''False'')"
| "py_str other v = other v"

definition startswith :: "string \<Rightarrow> string \<Rightarrow> bool" where
  "startswith s p = (take (length p) s = p)"

definition endswith :: "string \<Rightarrow> string \<Rightarrow> bool" where
  "endswith s p = (length p \<le> length s \<and> drop (length s - length p) s = p)"

text \<open>
  What the program does to its surroundings. The local disk maps the path of a regular
  file to its bytes (directories are taken to exist); \<open>outside\<close> is everything else a
  helper may read or change (network, object storage, database, camera, clock). The
  journal lists, oldest first, the log records the program writes and the calls it makes
  to code outside the modelled files, each with its arguments and its outcome. A log
  record keeps the message as the source writes it; the values an f-string interpolates
  are not rendered.
\<close>

text \<open>A response of \<open>requests\<close> or a blob stream of Azure: the cookies, the chunks
  the body arrives in, and the error that breaks the stream after them, if one does.\<close>

record response =
  cookies :: "(string \<times> string) list"
  chunks :: "string list"
  broken :: "exn option"

text \<open>What \<open>now()\<close> returns, as far as the program reads it: the POSIX timestamp of the
  wall-clock time taken as UTC, and the seconds of the minute.\<close>

record datetime =
  stamp :: real
  second :: nat

text \<open>What a trimming function returns, by the annotation of \<open>trimming_callable\<close>
  (\<open>Union[Optional[List], str]\<close>).\<close>

datatype trim_out = TList "string list" | TNone | TStr string

datatype arg =
    AStr string
  | AJson json
  | AInt int
  | AReal real
  | ABool bool
  | AOpt "string option"
  | AStrs "string list"
  | APairs "(string \<times> string) list"
  | AResp response
  | ATime datetime
  | ATrim trim_out
  | AUnit

datatype level = Info | Warning | Error | Critical

datatype event =
    Log level string
  | LogException exn
  | Call string "arg list" "exn + arg"

record 'r state =
  disk :: "string \<rightharpoonup> string"
  outside :: 'r
  journal :: "event list"

type_synonym ('r, 'a) helper =
  "(string \<rightharpoonup> string) \<Rightarrow> 'r \<Rightarrow> (exn + 'a) \<times> (string \<rightharpoonup> string) \<times> 'r"

type_synonym ('r, 'a) prog = "'r state \<Rightarrow> (exn + 'a) \<times> 'r state"

definition ret :: "'a \<Rightarrow> ('r, 'a) prog" where
  "ret x s = (Inr x, s)"

definition throw :: "exn \<Rightarrow> ('r, 'a) prog" where
  "throw e s = (Inl e, s)"

definition lift :: "exn + 'a \<Rightarrow> ('r, 'a) prog" where
  "lift v s = (v, s)"

definition pbind :: "('r, 'a) prog \<Rightarrow> ('a \<Rightarrow> ('r, 'b) prog) \<Rightarrow> ('r, 'b) prog" where
  "pbind m f s = (case m s of (Inl e, s') \<Rightarrow> (Inl e, s') | (Inr a, s') \<Rightarrow> f a s')"

definition pthen :: "('r, 'a) prog \<Rightarrow> ('r, 'b) prog \<Rightarrow> ('r, 'b) prog" where
  "pthen m k = pbind m (\<lambda>_. k)"

text \<open>\<open>try: m except ...\<close>: the handler table \<open>h\<close> gives the clause that catches an
  exception, if one does.\<close>

definition try_except :: "('r, 'a) prog \<Rightarrow> (exn \<Rightarrow> ('r, 'a) prog option) \<Rightarrow> ('r, 'a) prog" where
  "try_except m h s =
     (case m s of
        (Inr a, s') \<Rightarrow> (Inr a, s')
      | (Inl e, s') \<Rightarrow> (case h e of None \<Rightarrow> (Inl e, s') | Some k \<Rightarrow> k s'))"

definition record_event :: "event \<Rightarrow> ('r, unit) prog" where
  "record_event ev s = (Inr (), s\<lparr>journal := journal s @ [ev]\<rparr>)"

text \<open>The double quote, for the messages that hold one.\<close>

definition dq :: string where
  "dq = [CHR 0x22]"

definition log_info :: "string \<Rightarrow> ('r, unit) prog" where
  "log_info msg = record_event (Log Info msg)"

definition log_warning :: "string \<Rightarrow> ('r, unit) prog" where
  "log_warning msg = record_event (Log Warning msg)"

definition log_error :: "string \<Rightarrow> ('r, unit) prog" where
  "log_error msg = record_event (Log Error msg)"

definition log_critical :: "string \<Rightarrow> ('r, unit) prog" where
  "log_critical msg = record_event (Log Critical msg)"

definition log_exception :: "exn \<Rightarrow> ('r, unit) prog" where
  "log_exception e = record_event (LogException e)"

definition call :: "string \<Rightarrow> arg list \<Rightarrow> ('a \<Rightarrow> arg) \<Rightarrow> ('r, 'a) helper \<Rightarrow> ('r, 'a) prog" where
  "call name args enc h s =
     (case h (disk s) (outside s) of
        (res, d, r) \<Rightarrow>
          (res, s\<lparr>disk := d, outside := r,
                 journal := journal s @ [Call name args (map_sum id enc res)]\<rparr>))"

subsection \<open>Paths (posixpath)\<close>

definition basename :: "string \<Rightarrow> string" where
  "basename p = rev (takeWhile (\<lambda>c. c \<noteq> CHR ''/'') (rev p))"

definition path_join :: "string \<Rightarrow> string \<Rightarrow> string" where
  "path_join a b =
     (if startswith b ''/'' then b
      else if a = [] \<or> endswith a ''/'' then a @ b
      else a @ ''/'' @ b)"

text \<open>\<open>open(path, 'wb')\<close> creates or truncates the file; a path that names no file
  (empty, or ending in a separator) raises an OSError.\<close>

definition open_wb :: "string \<Rightarrow> ('r, unit) prog" where
  "open_wb path s =
     (if path = [] \<or> endswith path ''/'' then (Inl OSError, s)
      else (Inr (), s\<lparr>disk := (disk s)(path \<mapsto> [])\<rparr>))"

definition file_write :: "string \<Rightarrow> string \<Rightarrow> ('r, unit) prog" where
  "file_write path bytes s =
     (Inr (), s\<lparr>disk := (disk s)(path \<mapsto> (case disk s path of None \<Rightarrow> [] | Some old \<Rightarrow> old) @ bytes)\<rparr>)"

subsection \<open>urllib.parse\<close>

text \<open>
  \<open>filename_from_url\<close> uses two functions of the standard library:
  \<open>urlsplit(url).path\<close>, which may raise ValueError, and \<open>unquote\<close>. The theorems
  hold for any pair of functions in their place. \<open>py_urllib\<close> is a model of the pair on
  ASCII text, for examples: the scheme up to the first colon and the network location
  after \<open>//\<close> are cut off, then the fragment and the query; each escape \<open>%XX\<close> with two
  hexadecimal digits becomes the byte it names.
\<close>

record urllib =
  urlsplit_path :: "string \<Rightarrow> exn + string"
  unquote :: "string \<Rightarrow> string"

definition hexval :: "char \<Rightarrow> nat option" where
  "hexval c =
     (let n = (of_char c :: nat) in
      if 48 \<le> n \<and> n \<le> 57 then Some (n - 48)
      else if 97 \<le> n \<and> n \<le> 102 then Some (n - 87)
      else if 65 \<le> n \<and> n \<le> 70 then Some (n - 55)
      else None)"

fun py_unquote :: "string \<Rightarrow> string" where
  "py_unquote (c # h1 # h2 # cs) =
     (if c = CHR ''%'' then
        (case (hexval h1, hexval h2) of
           (Some a, Some b) \<Rightarrow> char_of (16 * a + b) # py_unquote cs
         | _ \<Rightarrow> c # py_unquote (h1 # h2 # cs))
      else c # py_unquote (h1 # h2 # cs))"
| "py_unquote cs = cs"

definition scheme_char :: "char \<Rightarrow> bool" where
  "scheme_char c =
     (let n = (of_char c :: nat) in
      (97 \<le> n \<and> n \<le> 122) \<or> (65 \<le> n \<and> n \<le> 90) \<or> (48 \<le> n \<and> n \<le> 57)
      \<or> c = CHR ''+'' \<or> c = CHR ''-'' \<or> c = CHR ''.'')"

definition strip_scheme :: "string \<Rightarrow> string" where
  "strip_scheme url =
     (let pre = takeWhile (\<lambda>c. c \<noteq> CHR '':'') url in
      if length pre < length url \<and> pre \<noteq> [] \<and> list_all scheme_char pre
      then drop (Suc (length pre)) url else url)"

definition netloc_end :: "char \<Rightarrow> bool" where
  "netloc_end c = (c = CHR ''/'' \<or> c = CHR ''?'' \<or> c = CHR ''#'')"

definition py_urlsplit_path :: "string \<Rightarrow> exn + string" where
  "py_urlsplit_path url =
     (let u = strip_scheme url;
          netloc = (if startswith u ''//'' then takeWhile (\<lambda>c. \<not> netloc_end c) (drop 2 u) else []);
          rest = (if startswith u ''//'' then dropWhile (\<lambda>c. \<not> netloc_end c) (drop 2 u) else u)
      in if (CHR ''['' \<in> set netloc) \<noteq> (CHR '']'' \<in> set netloc)
         then Inl (ValueError ''Invalid IPv6 URL'')
         else Inr (takeWhile (\<lambda>c. c \<noteq> CHR ''?'') (takeWhile (\<lambda>c. c \<noteq> CHR ''#'') rest)))"

definition py_urllib :: urllib where
  "py_urllib = \<lparr>urlsplit_path = py_urlsplit_path, unquote = py_unquote\<rparr>"

section \<open>utils/downloads.py\<close>

definition filename_from_url :: "urllib \<Rightarrow> string \<Rightarrow> exn + string" where
  "filename_from_url lib public_url =
     (case urlsplit_path lib public_url of
        Inl e \<Rightarrow> Inl e
      | Inr url_path \<Rightarrow>
          (let basename' = basename (unquote lib url_path) in
           if basename basename' \<noteq> basename' \<or> unquote lib (basename url_path) \<noteq> basename'
           then Inl (ValueError ''[e] URL has invalid characters. Cannot parse the same.'')
           else Inr basename'))"

text \<open>
  Modelled from the spec: \<open>file_size\<close> of utils/common.py, which is not among the source
  files. The spec gives the unit suffixes \<open>bytes, KB, MB, GB, TB, PB\<close> in steps of 1024
  and the form \<open><number> <unit>\<close> (\<open>300.0 bytes\<close>, \<open>12.3 MB\<close>); the rendering of the
  number is the parameter \<open>render\<close>. The spec does not say what a missing path gives; the
  model raises OSError, as \<open>os.stat\<close> does.
\<close>

definition size_unit :: "nat \<Rightarrow> string" where
  "size_unit n =
     (if n < 1024 then ''bytes''
      else if n < 1024 ^ 2 then ''KB''
      else if n < 1024 ^ 3 then ''MB''
      else if n < 1024 ^ 4 then ''GB''
      else if n < 1024 ^ 5 then ''TB''
      else ''PB'')"

definition file_size :: "(nat \<Rightarrow> string) \<Rightarrow> string \<Rightarrow> ('r, string) prog" where
  "file_size render path s =
     (case disk s path of
        None \<Rightarrow> (Inl OSError, s)
      | Some bytes \<Rightarrow> (Inr (render (length bytes) @ '' '' @ size_unit (length bytes)), s))"

text \<open>
  The parameters of the program: the library functions it calls, the constants of
  \<open>vars/dev.py\<close> and of the installation, and the functions of the repository that are
  not among the source files. A function that acts on the surroundings is a helper: it
  reads and changes the disk and the outside, and returns or raises. The two literal
  credentials \<open>spin\<close> passes to the storage functions are the parameters \<open>access_key\<close> and
  \<open>secret_key\<close>.
\<close>

record 'r env =
  lib :: urllib
  str_other :: "json \<Rightarrow> string"
  num_text :: "real \<Rightarrow> string"
  size_text :: "nat \<Rightarrow> string"
  py_int :: "json \<Rightarrow> exn + int"
  py_float :: "json \<Rightarrow> exn + real"
  json_loads :: "string \<Rightarrow> exn + json"
  strptime_stamp :: "string \<Rightarrow> exn + real"
  os_name :: string
  parent_path :: string
  live_path :: string
  DRIVE_DOWNLOAD_URL :: string
  access_key :: string
  secret_key :: string
  os_system :: "string \<Rightarrow> ('r, int) helper"
  isdir :: "string \<Rightarrow> ('r, bool) helper"
  mkdir :: "string \<Rightarrow> ('r, unit) helper"
  sleep :: "real \<Rightarrow> ('r, unit) helper"
  today :: "('r, string) helper"
  requests_get :: "string \<Rightarrow> (string \<times> string) list \<Rightarrow> ('r, response) helper"
  blob_client :: "string \<Rightarrow> json \<Rightarrow> json \<Rightarrow> exn option"
  download_blob :: "string \<Rightarrow> json \<Rightarrow> json \<Rightarrow> ('r, response) helper"
  clip_duration :: "string \<Rightarrow> ('r, real) helper"
  access_file_update :: "json \<Rightarrow> json \<Rightarrow> json \<Rightarrow> json \<Rightarrow> json \<Rightarrow> ('r, unit) helper"
  now :: "('r, datetime) helper"
  calculate_duration :: "string \<Rightarrow> string \<Rightarrow> string \<Rightarrow> bool \<Rightarrow> ('r, real) helper"
  video_type :: "json \<Rightarrow> json \<Rightarrow> json \<Rightarrow> ('r, string) helper"
  timestamp_dirname :: "('r, string) helper"
  configure_camera_url :: "string \<Rightarrow> string \<Rightarrow> string \<Rightarrow> int \<Rightarrow> ('r, string) helper"
  camera_live :: "string \<Rightarrow> json \<Rightarrow> real \<Rightarrow> ('r, bool) helper"
  filename :: "string \<Rightarrow> int \<Rightarrow> ('r, string) helper"
  concate_videos :: "string \<Rightarrow> bool \<Rightarrow> ('r, string) helper"
  bucket_name :: "json \<Rightarrow> json \<Rightarrow> json \<Rightarrow> json \<Rightarrow> ('r, string) helper"
  order_name :: "json \<Rightarrow> json \<Rightarrow> json \<Rightarrow> datetime \<Rightarrow> ('r, string) helper"
  trigger_utc_capture ::
    "string \<Rightarrow> string \<Rightarrow> json \<Rightarrow> json \<Rightarrow> json \<Rightarrow> json \<Rightarrow> json \<Rightarrow> json \<Rightarrow> int \<Rightarrow> real \<Rightarrow> json
       \<Rightarrow> ('r, string option) helper"
  rename_original_file :: "string option \<Rightarrow> string \<Rightarrow> string \<Rightarrow> ('r, string) helper"
  create_copy :: "string \<Rightarrow> ('r, string) helper"
  completion_time_calculator :: "string \<Rightarrow> real \<Rightarrow> ('r, string) helper"
  trim_sample_section :: "string \<Rightarrow> real \<Rightarrow> ('r, string) helper"
  redact_faces :: "string \<Rightarrow> ('r, string) helper"
  rename_aaaa_file :: "string \<Rightarrow> string \<Rightarrow> ('r, string) helper"
  compress_video :: "string \<Rightarrow> ('r, string) helper"
  trim_by_factor :: "string \<Rightarrow> json \<Rightarrow> int \<Rightarrow> json \<Rightarrow> ('r, trim_out) helper"
  trim_num_parts :: "string \<Rightarrow> int \<Rightarrow> json \<Rightarrow> int \<Rightarrow> json \<Rightarrow> json \<Rightarrow> ('r, trim_out) helper"
  trim_sub_sample :: "string \<Rightarrow> json \<Rightarrow> json \<Rightarrow> json \<Rightarrow> json \<Rightarrow> json \<Rightarrow> ('r, trim_out) helper"
  trim_by_points :: "string \<Rightarrow> int \<Rightarrow> int \<Rightarrow> json \<Rightarrow> ('r, trim_out) helper"
  create_s3_bucket :: "string \<Rightarrow> string \<Rightarrow> string \<Rightarrow> ('r, unit) helper"
  upload_to_bucket :: "string \<Rightarrow> string \<Rightarrow> string \<Rightarrow> string \<Rightarrow> ('r, string) helper"
  create_video_map_obj :: "json \<Rightarrow> string \<Rightarrow> string \<Rightarrow> string \<Rightarrow> ('r, unit) helper"

text \<open>utils/paths.py.\<close>

definition downloads :: "'r env \<Rightarrow> string" where
  "downloads env = path_join (parent_path env) ''downloads''"

definition reports :: "'r env \<Rightarrow> string" where
  "reports env = path_join (parent_path env) ''reports''"

text \<open>\<open>response.content\<close> reads the whole body and raises where the stream breaks.\<close>

definition content :: "response \<Rightarrow> exn + string" where
  "content r = (case broken r of None \<Rightarrow> Inr (concat (chunks r)) | Some e \<Rightarrow> Inl e)"

definition download_from_url ::
  "'r env \<Rightarrow> string \<Rightarrow> string option \<Rightarrow> string \<Rightarrow> ('r, bool option \<times> string) prog" where
  "download_from_url env public_url filename_arg download_path =
     try_except
       (pbind (call ''requests.get'' [AStr public_url] AResp (requests_get env public_url []))
          (\<lambda>download_item.
           pbind (case filename_arg of
                    None \<Rightarrow> lift (filename_from_url (lib env) public_url)
                  | Some f \<Rightarrow> ret f)
             (\<lambda>filename'.
              pthen (open_wb (path_join download_path filename'))
                (pbind (lift (content download_item))
                   (\<lambda>body.
                    pthen (file_write (path_join download_path filename') body)
                      (ret (Some True, path_join download_path filename')))))))
       (\<lambda>e. if is_request_error e
            then Some (ret (None, ''[e] Error while downloading file''))
            else None)"

fun fetch_confirm_token :: "(string \<times> string) list \<Rightarrow> string option" where
  "fetch_confirm_token [] = None"
| "fetch_confirm_token ((k, v) # kvs) =
     (if startswith k ''download_warning'' then Some v else fetch_confirm_token kvs)"

text \<open>\<open>s.split(sep)\<close> for a separator that is not empty: the pieces between the
  occurrences of \<open>sep\<close>, found from the left.\<close>

function py_split :: "string \<Rightarrow> string \<Rightarrow> string \<Rightarrow> string list" where
  "py_split sep acc [] = [rev acc]"
| "py_split sep acc (c # cs) =
     (if sep \<noteq> [] \<and> startswith (c # cs) sep
      then rev acc # py_split sep [] (drop (length sep) (c # cs))
      else py_split sep (c # acc) cs)"
  by pat_completeness auto
termination
  by (relation "measure (\<lambda>(sep, acc, rest). length rest)") auto

text \<open>\<open>shareable_url.split(prefix)[1]\<close>: only a string has \<open>split\<close>.\<close>

definition split_second :: "json \<Rightarrow> string \<Rightarrow> exn + string" where
  "split_second v sep =
     (case v of
        JStr s \<Rightarrow> (case py_split sep [] s of a # b # rest \<Rightarrow> Inr b | _ \<Rightarrow> Inl IndexError)
      | _ \<Rightarrow> Inl AttributeError)"

text \<open>\<open>for chunk in response.iter_content(...): if chunk: file.write(chunk)\<close>.\<close>

fun write_chunks :: "string \<Rightarrow> string list \<Rightarrow> ('r, unit) prog" where
  "write_chunks path [] = ret ()"
| "write_chunks path (c # cs) =
     pthen (if c \<noteq> [] then file_write path c else ret ()) (write_chunks path cs)"

definition iter_write :: "string \<Rightarrow> response \<Rightarrow> ('r, unit) prog" where
  "iter_write path r =
     pthen (write_chunks path (chunks r))
       (case broken r of None \<Rightarrow> ret () | Some e \<Rightarrow> throw e)"

definition download_from_google_drive ::
  "'r env \<Rightarrow> json \<Rightarrow> json \<Rightarrow> string \<Rightarrow> ('r, bool option \<times> string) prog" where
  "download_from_google_drive env shareable_url file_name download_path =
     (let target = path_join download_path (py_str (str_other env) file_name @ ''.mp4'') in
      try_except
        (pbind (lift (split_second shareable_url ''https://drive.google.com/open?id=''))
           (\<lambda>file_id.
            pbind (call ''session.get'' [AStr (DRIVE_DOWNLOAD_URL env), APairs [(''id'', file_id)]] AResp
                     (requests_get env (DRIVE_DOWNLOAD_URL env) [(''id'', file_id)]))
              (\<lambda>response.
               pbind (case fetch_confirm_token (cookies response) of
                        None \<Rightarrow> ret response
                      | Some token \<Rightarrow>
                          if token \<noteq> [] then
                            call ''session.get''
                              [AStr (DRIVE_DOWNLOAD_URL env), APairs [(''id'', file_id), (''confirm'', token)]] AResp
                              (requests_get env (DRIVE_DOWNLOAD_URL env) [(''id'', file_id), (''confirm'', token)])
                          else ret response)
                 (\<lambda>response.
                  pthen (open_wb target)
                    (pthen (iter_write target response)
                       (pthen (log_info (''File '' @ dq @ ''{file_name}.mp4'' @ dq @ '' downloaded from Google Drive.''))
                          (pbind (file_size (size_text env) target)
                             (\<lambda>fz.
                              if endswith fz ''KB'' then
                                pthen (log_error ''Unusable file downloaded since file size is in KBs.'')
                                  (ret (None, ''[w] Unusable file downloaded.''))
                              else ret (Some True, target)))))))))
        (\<lambda>e. if is_request_error e
             then Some (pthen (log_error ''File download from Google Drive failed because of poor network connectivity.'')
                          (ret (None, ''[e] Error while downloading file'')))
             else None))"

definition generate_connection_string :: "(json \<Rightarrow> string) \<Rightarrow> json \<Rightarrow> json \<Rightarrow> string \<Rightarrow> string" where
  "generate_connection_string other account_name account_key protocol =
     ''DefaultEndpointsProtocol='' @ protocol @ '';'' @
     ''AccountName='' @ py_str other account_name @ '';AccountKey='' @ py_str other account_key @ '';'' @
     ''EndpointSuffix=core.windows.net''"

definition download_from_azure ::
  "'r env \<Rightarrow> json \<Rightarrow> json \<Rightarrow> json \<Rightarrow> json \<Rightarrow> json \<Rightarrow> string \<Rightarrow> ('r, bool option \<times> string) prog" where
  "download_from_azure env account_name account_key container_name blob_name file_name download_path =
     (let target = path_join download_path (py_str (str_other env) file_name @ ''.mp4'');
          connection_string = generate_connection_string (str_other env) account_name account_key ''https''
      in
      try_except
        (pthen (case blob_client env connection_string container_name blob_name of
                  None \<Rightarrow> ret ()
                | Some e \<Rightarrow> throw e)
           (pthen (open_wb target)
              (pbind (call ''blob.download_blob'' [AStr connection_string, AJson container_name, AJson blob_name] AResp
                        (download_blob env connection_string container_name blob_name))
                 (\<lambda>data.
                  pthen (iter_write target data)
                    (pthen (log_info (''File '' @ dq @ ''{file_name}.mp4'' @ dq @ '' downloaded from Microsoft Azure.''))
                       (pbind (file_size (size_text env) target)
                          (\<lambda>fz.
                           if endswith fz ''KB'' then
                             pthen (log_error ''Unusable file downloaded since file size is in KBs.'')
                               (ret (None, ''[w] Unusable file downloaded.''))
                           else ret (Some True, target))))))))
        (\<lambda>e. if is_Exception e
             then Some (pthen (log_error ''File download from Microsoft Azure failed because of poor network connectivity.'')
                          (ret (None, ''[e] Error while downloading file'')))
             else None))"

definition scp_command :: "(json \<Rightarrow> string) \<Rightarrow> json \<Rightarrow> json \<Rightarrow> json \<Rightarrow> json \<Rightarrow> string \<Rightarrow> string" where
  "scp_command other username password public_address remote_file download_path =
     ''sshpass -p '' @ py_str other password @ '' scp -o StrictHostKeyChecking=no '' @
     py_str other username @ ''@'' @ py_str other public_address @ '':'' @ py_str other remote_file @
     '' '' @ download_path"

definition download_using_ftp ::
  "'r env \<Rightarrow> json \<Rightarrow> json \<Rightarrow> json \<Rightarrow> json \<Rightarrow> json \<Rightarrow> string \<Rightarrow> ('r, bool option \<times> string) prog" where
  "download_using_ftp env username password public_address remote_file file_name download_path =
     (let target = path_join download_path (py_str (str_other env) file_name @ ''.mp4'');
          command = scp_command (str_other env) username password public_address remote_file download_path
      in
      try_except
        (pthen (call ''os.system'' [AStr command] AInt (os_system env command))
           (pthen (log_info (''File '' @ dq @ ''{file_name}.mp4'' @ dq @ '' transferred successfully''))
              (pbind (file_size (size_text env) target)
                 (\<lambda>fz.
                  if endswith fz ''KB'' then
                    pthen (log_error ''Unusable file transferred since file size is in KBs.'')
                      (ret (None, ''[w] Unusable file transferred.''))
                  else ret (Some True, target)))))
        (\<lambda>e. if is_OSError e
             then Some (pthen (log_error ''File transfer via FTP failed because of poor network connectivity.'')
                          (ret (None, ''[e] Error while transferring file'')))
             else None))"

section \<open>core/consumer/downloader.py\<close>

text \<open>\<open>os.path.join(a, b)\<close> where \<open>b\<close> comes from the message: anything but a string
  raises TypeError.\<close>

definition os_path_join :: "string \<Rightarrow> json \<Rightarrow> exn + string" where
  "os_path_join a v = (case v of JStr b \<Rightarrow> Inr (path_join a b) | _ \<Rightarrow> Inl TypeError)"

text \<open>
  \<open>compute\<close> reads \<open>access_type\<close> anew in every \<open>elif\<close>; the value is the same each time,
  and the model reads it once.
\<close>

definition compute :: "'r env \<Rightarrow> string \<Rightarrow> ('r, unit) prog" where
  "compute env json_obj =
     pbind (lift (json_loads env json_obj)) (\<lambda>json_data.
     pbind (lift (dict_get json_data ''access_type'' JNull)) (\<lambda>access_type.
     if access_type = JStr ''GCP'' then
               pthen (log_info ''Download file via Google Drive.'') (
               pbind (lift (dict_get json_data ''g_url'' JNull)) (\<lambda>g_url.
               pbind (lift (dict_get json_data ''stored_filename'' JNull)) (\<lambda>stored_filename.
               pbind (download_from_google_drive env g_url stored_filename (downloads env)) (\<lambda>result.
               ret ()))))
     else if access_type = JStr ''Microsoft'' then
               pthen (log_info ''Download file via Microsoft Azure.'') (
               pbind (lift (dict_get json_data ''azure_account_name'' JNull)) (\<lambda>azure_account_name.
               pbind (lift (dict_get json_data ''azure_account_key'' JNull)) (\<lambda>azure_account_key.
               pbind (lift (dict_get json_data ''azure_container_name'' JNull)) (\<lambda>azure_container_name.
               pbind (lift (dict_get json_data ''azure_blob_name'' JNull)) (\<lambda>azure_blob_name.
               pbind (lift (dict_get json_data ''stored_filename'' JNull)) (\<lambda>stored_filename.
               pbind (download_from_azure env azure_account_name azure_account_key azure_container_name
                         azure_blob_name stored_filename (downloads env)) (\<lambda>result.
               ret ())))))))
     else if access_type = JStr ''FTP'' then
               pthen (log_info ''Transfer file via FTP.'') (
               pbind (lift (dict_get json_data ''remote_username'' JNull)) (\<lambda>remote_username.
               pbind (lift (dict_get json_data ''remote_password'' JNull)) (\<lambda>remote_password.
               pbind (lift (dict_get json_data ''remote_public_address'' JNull)) (\<lambda>remote_public_address.
               pbind (lift (dict_get json_data ''remote_file'' JNull)) (\<lambda>remote_file.
               pbind (lift (dict_get json_data ''stored_filename'' JNull)) (\<lambda>stored_filename.
               pbind (download_using_ftp env remote_username remote_password remote_public_address
                         remote_file stored_filename (downloads env)) (\<lambda>result.
               ret ())))))))
     else if access_type = JStr ''S3'' then
               pthen (log_info ''Download file via Amazon S3 storage.'') (
               pbind (lift (dict_get json_data ''s3_access_key'' JNull)) (\<lambda>s3_access_key.
               pbind (lift (dict_get json_data ''s3_secret_key'' JNull)) (\<lambda>s3_secret_key.
               pbind (lift (dict_get json_data ''s3_url'' JNull)) (\<lambda>s3_url.
               pbind (lift (dict_get json_data ''stored_filename'' JNull)) (\<lambda>stored_filename.
               pbind (lift (dict_get json_data ''s3_bucket_name'' JNull)) (\<lambda>s3_bucket_name.
               pbind (call ''access_file_update''
                         [AJson s3_access_key, AJson s3_secret_key, AJson s3_url, AJson stored_filename, AJson s3_bucket_name]
                         (\<lambda>u. AUnit)
                         (access_file_update env s3_access_key s3_secret_key s3_url stored_filename s3_bucket_name)) (\<lambda>result.
               ret ())))))))
     else if access_type = JStr ''FTP TOOL'' then
               pthen (log_info ''Transfer file via TeamViewer (FTP Tool).'') (
               pbind (lift (dict_get json_data ''stored_filename'' JNull)) (\<lambda>stored_filename.
               pbind (lift (os_path_join (downloads env) stored_filename)) (\<lambda>joined.
               ret ())))
     else ret ()))"

section \<open>core/capture/live.py\<close>

definition isfile :: "string \<Rightarrow> ('r, bool) prog" where
  "isfile path s = (Inr (disk s path \<noteq> None), s)"

definition ffmpeg_str :: "'r env \<Rightarrow> string \<Rightarrow> string \<Rightarrow> real \<Rightarrow> real \<Rightarrow> string" where
  "ffmpeg_str env source file_name duration camera_timeout =
     (if os_name env = ''nt'' then ''ffmpeg.exe'' else ''ffmpeg'') @
     '' -loglevel error -y -rtsp_transport tcp -i '' @ source @
     '' -vcodec copy -acodec copy -t '' @ num_text env duration @ '' '' @ file_name @
     '' -timeout '' @ num_text env camera_timeout"

text \<open>
  One pass through the body of the \<open>while True\<close> loop of \<open>start_live_recording\<close>: it
  either returns from the function (\<open>Done\<close>) or goes round again with the new values of
  \<open>duration\<close>, \<open>slept_duration\<close> and \<open>idx\<close>. Durations are real numbers; the rounding of
  Python's floats is not modelled. \<open>drn\<close> is \<open>duration\<close> of the statistics module, which
  asks the video library for the length of the clip (the helper \<open>clip_duration\<close>).
\<close>

datatype loop_out = Again real real int | Done "string option"

definition live_iteration ::
  "'r env \<Rightarrow> string \<Rightarrow> json \<Rightarrow> real \<Rightarrow> string \<Rightarrow> string \<Rightarrow> string \<Rightarrow> real
     \<Rightarrow> real \<Rightarrow> real \<Rightarrow> int \<Rightarrow> ('r, loop_out) prog" where
  "live_iteration env camera_address camera_port camera_timeout url temp_path temp_file force_close
     duration slept_duration idx =
     pbind (call ''camera_live'' [AStr camera_address, AJson camera_port, AReal camera_timeout] ABool
              (camera_live env camera_address camera_port camera_timeout)) (\<lambda>alive.
     if alive then
               pbind (call ''filename'' [AStr temp_file, AInt idx] AStr (filename env temp_file idx)) (\<lambda>file.
               pbind (call ''os.system'' [AStr (ffmpeg_str env url file duration camera_timeout)] AInt
                       (os_system env (ffmpeg_str env url file duration camera_timeout))) (\<lambda>status.
               pbind (call ''now'' [] ATime (now env)) (\<lambda>stop_utc.
               pbind (call ''now'' [] ATime (now env)) (\<lambda>stop_secs.
               pbind (file_size (size_text env) file) (\<lambda>old_file.
               pbind (if old_file = ''300.0 bytes'' then ret (real (second stop_secs))
                       else call ''duration'' [AStr file] AReal (clip_duration env file)) (\<lambda>old_duration.
               if force_close \<le> stamp stop_utc \<or> duration - old_duration - slept_duration \<le> 0 then
                 pbind (call ''concate_videos'' [AStr temp_path, ABool True] AStr (concate_videos env temp_path True)) (\<lambda>output.
                 pbind (isfile output) (\<lambda>present.
                 ret (Done (if present then Some output else None))))
               else ret (Again (duration - old_duration - slept_duration) 0 (idx + 1))))))))
     else
       pthen (call ''time.sleep'' [AReal camera_timeout] (\<lambda>u. AUnit) (sleep env camera_timeout))
         (ret (Again duration (slept_duration + camera_timeout) idx)))"

text \<open>The loop may run for ever (a camera that never answers): the model counts the
  passes it may take, and \<open>None\<close> is the loop that has not returned within them.\<close>

fun live_loop ::
  "nat \<Rightarrow> 'r env \<Rightarrow> string \<Rightarrow> json \<Rightarrow> real \<Rightarrow> string \<Rightarrow> string \<Rightarrow> string \<Rightarrow> real
     \<Rightarrow> real \<Rightarrow> real \<Rightarrow> int \<Rightarrow> 'r state \<Rightarrow> ((exn + string option) \<times> 'r state) option" where
  "live_loop 0 env camera_address camera_port camera_timeout url temp_path temp_file force_close
     duration slept_duration idx s = None"
| "live_loop (Suc n) env camera_address camera_port camera_timeout url temp_path temp_file force_close
     duration slept_duration idx s =
     (case live_iteration env camera_address camera_port camera_timeout url temp_path temp_file force_close
             duration slept_duration idx s of
        (Inl e, s') \<Rightarrow> Some (Inl e, s')
      | (Inr (Done output), s') \<Rightarrow> Some (Inr output, s')
      | (Inr (Again duration' slept_duration' idx'), s') \<Rightarrow>
          live_loop n env camera_address camera_port camera_timeout url temp_path temp_file force_close
            duration' slept_duration' idx' s')"

text \<open>The statements of \<open>start_live_recording\<close> before the loop.\<close>

definition live_setup ::
  "'r env \<Rightarrow> string \<Rightarrow> string \<Rightarrow> string \<Rightarrow> string \<Rightarrow> string \<Rightarrow> string \<Rightarrow> string \<Rightarrow> json \<Rightarrow> string
     \<Rightarrow> ('r, real \<times> real \<times> string \<times> string \<times> string) prog" where
  "live_setup env bucket order start_time end_time camera_address camera_username camera_password
     camera_port timestamp_format =
     pbind (call ''datetime.now'' [] AStr (today env)) (\<lambda>run_date.
     pbind (call ''calculate_duration''
              [AStr (run_date @ '' '' @ start_time), AStr (run_date @ '' '' @ end_time), AStr timestamp_format, ABool True] AReal
              (calculate_duration env (run_date @ '' '' @ start_time) (run_date @ '' '' @ end_time) timestamp_format True)) (\<lambda>duration.
     pbind (lift (strptime_stamp env (run_date @ '' '' @ end_time))) (\<lambda>force_close.
     pbind (call ''video_type'' [AJson (JBool True), AJson (JBool True), AJson (JBool True)] AStr
              (video_type env (JBool True) (JBool True) (JBool True))) (\<lambda>vid_type.
     pbind (call ''timestamp_dirname'' [] AStr (timestamp_dirname env)) (\<lambda>stamp_dir.
     pbind (call ''os.path.isdir'' [AStr (path_join (live_path env) (bucket @ order @ ''_'' @ stamp_dir))] ABool
              (isdir env (path_join (live_path env) (bucket @ order @ ''_'' @ stamp_dir)))) (\<lambda>present.
     pthen (if present then ret ()
            else call ''os.mkdir'' [AStr (path_join (live_path env) (bucket @ order @ ''_'' @ stamp_dir))] (\<lambda>u. AUnit)
                   (mkdir env (path_join (live_path env) (bucket @ order @ ''_'' @ stamp_dir)))) (
     pbind (lift (py_int env camera_port)) (\<lambda>port.
     pbind (call ''configure_camera_url'' [AStr camera_address, AStr camera_username, AStr camera_password, AInt port] AStr
              (configure_camera_url env camera_address camera_username camera_password port)) (\<lambda>url.
     ret (duration, force_close,
          path_join (live_path env) (bucket @ order @ ''_'' @ stamp_dir),
          path_join (path_join (live_path env) (bucket @ order @ ''_'' @ stamp_dir)) (bucket @ order @ vid_type @ ''.mp4''),
          url))))))))))"

definition start_live_recording ::
  "nat \<Rightarrow> 'r env \<Rightarrow> string \<Rightarrow> string \<Rightarrow> string \<Rightarrow> string \<Rightarrow> string \<Rightarrow> string \<Rightarrow> string \<Rightarrow> json \<Rightarrow> real
     \<Rightarrow> string \<Rightarrow> 'r state \<Rightarrow> ((exn + string option) \<times> 'r state) option" where
  "start_live_recording fuel env bucket order start_time end_time camera_address camera_username
     camera_password camera_port camera_timeout timestamp_format s =
     (case live_setup env bucket order start_time end_time camera_address camera_username camera_password
             camera_port timestamp_format s of
        (Inl e, s') \<Rightarrow> Some (Inl e, s')
      | (Inr (duration, force_close, temp_path, temp_file, url), s') \<Rightarrow>
          if duration \<noteq> 0 then
            (case live_loop fuel env camera_address camera_port camera_timeout url temp_path temp_file
                    force_close duration 0 1 s' of
               None \<Rightarrow> None
             | Some (Inl e, s'') \<Rightarrow> if is_OSError e then Some (Inr None, s'') else Some (Inl e, s'')
             | Some (Inr output, s'') \<Rightarrow> Some (Inr output, s''))
          else Some (Inr None, s'))"

section \<open>core/turntable.py\<close>

subsection \<open>Library functions on files\<close>

text \<open>\<open>os.remove\<close> raises an OSError (FileNotFoundError) for a path that is no file;
  \<open>shutil.move\<close> renames a file over its destination. Both are journalled.\<close>

definition os_remove :: "string \<Rightarrow> ('r, unit) prog" where
  "os_remove path s =
     (case disk s path of
        None \<Rightarrow> (Inl OSError, s\<lparr>journal := journal s @ [Call ''os.remove'' [AStr path] (Inl OSError)]\<rparr>)
      | Some bytes \<Rightarrow>
          (Inr (), s\<lparr>disk := (disk s)(path := None),
                      journal := journal s @ [Call ''os.remove'' [AStr path] (Inr AUnit)]\<rparr>))"

definition shutil_move :: "string \<Rightarrow> string \<Rightarrow> ('r, unit) prog" where
  "shutil_move src dst s =
     (case disk s src of
        None \<Rightarrow> (Inl OSError, s\<lparr>journal := journal s @ [Call ''shutil.move'' [AStr src, AStr dst] (Inl OSError)]\<rparr>)
      | Some bytes \<Rightarrow>
          (Inr (), s\<lparr>disk := ((disk s)(src := None))(dst \<mapsto> bytes),
                      journal := journal s @ [Call ''shutil.move'' [AStr src, AStr dst] (Inr AUnit)]\<rparr>))"

text \<open>
  \<open>csv.writer(csv_file, delimiter='\\n', quoting=csv.QUOTE_MINIMAL).writerow(urls)\<close> on a
  file opened for appending: the fields, joined by the delimiter, and the line terminator
  \<open>\\r\\n\<close>. A field that holds the delimiter, the quote character or a character of the
  line terminator is quoted, its quotes doubled; a row of one empty field is written as
  two quotes.
\<close>

definition csv_field :: "string \<Rightarrow> string" where
  "csv_field f =
     (if list_ex (\<lambda>c. c = CHR 0x0A \<or> c = CHR 0x0D \<or> c = CHR 0x22) f
      then dq @ concat (map (\<lambda>c. if c = CHR 0x22 then dq @ dq else [c]) f) @ dq
      else f)"

fun join_fields :: "string list \<Rightarrow> string" where
  "join_fields [] = []"
| "join_fields [f] = f"
| "join_fields (f # fs) = f @ [CHR 0x0A] @ join_fields fs"

definition csv_row :: "string list \<Rightarrow> string" where
  "csv_row row =
     (if row = [[]] then dq @ dq else join_fields (map csv_field row)) @ [CHR 0x0D, CHR 0x0A]"

definition csv_append :: "string \<Rightarrow> string list \<Rightarrow> ('r, unit) prog" where
  "csv_append path row =
     pthen (file_write path (csv_row row))
       (record_event (Call ''csv.writerow'' [AStr path, AStrs row] (Inr AUnit)))"

text \<open>\<open>Path(k).stem\<close>: the last component of the path, empty components and \<open>.\<close> left
  out, without its last suffix.\<close>

definition path_name :: "string \<Rightarrow> string" where
  "path_name p =
     (case filter (\<lambda>c. c \<noteq> [] \<and> c \<noteq> ''.'') (py_split ''/'' [] p) of
        [] \<Rightarrow> []
      | c # cs \<Rightarrow> last (c # cs))"

definition path_stem :: "string \<Rightarrow> string" where
  "path_stem p =
     (let name = path_name p;
          ext = rev (takeWhile (\<lambda>c. c \<noteq> CHR ''.'') (rev name))
      in if CHR ''.'' \<in> set name \<and> ext \<noteq> [] \<and> Suc (length ext) < length name
         then take (length name - Suc (length ext)) name
         else name)"

text \<open>\<open>xs.extend(ys)\<close>: \<open>None\<close> is not iterable, and a string is iterated by
  character.\<close>

fun py_extend :: "string list \<Rightarrow> trim_out \<Rightarrow> exn + string list" where
  "py_extend xs (TList ys) = Inr (xs @ ys)"
| "py_extend xs TNone = Inl TypeError"
| "py_extend xs (TStr s) = Inr (xs @ map (\<lambda>c. [c]) s)"

subsection \<open>The functions of the module\<close>

definition trimming_callable :: "'r env \<Rightarrow> json \<Rightarrow> string \<Rightarrow> ('r, trim_out) prog" where
  "trimming_callable env json_data final_file =
     pbind (lift (subscript json_data ''trim_type'')) (\<lambda>trim_type.
     if trim_type = JStr ''trim_by_factor'' then
               pbind (lift (dict_get json_data ''clip_length'' (JInt 30))) (\<lambda>v1.
               pbind (lift (py_int env v1)) (\<lambda>clip_length.
               pbind (lift (dict_get json_data ''trim_factor'' (JStr ''s''))) (\<lambda>trim_factor.
               pbind (lift (dict_get json_data ''last_clip'' (JBool False))) (\<lambda>last_clip.
               pthen (log_info ''Trimming video by factor.'') (
               call ''trim_by_factor'' [AStr final_file, AJson trim_factor, AInt clip_length, AJson last_clip] ATrim
                 (trim_by_factor env final_file trim_factor clip_length last_clip))))))
     else if trim_type = JStr ''trim_num_parts'' then
               pbind (lift (dict_get json_data ''number_of_clips'' (JInt 24))) (\<lambda>v1.
               pbind (lift (py_int env v1)) (\<lambda>number_of_clips.
               pbind (lift (dict_get json_data ''equal_distribution'' (JBool True))) (\<lambda>equal_distribution.
               pbind (lift (dict_get json_data ''clip_length'' (JInt 30))) (\<lambda>v2.
               pbind (lift (py_int env v2)) (\<lambda>clip_length.
               pbind (lift (dict_get json_data ''random_start'' (JBool True))) (\<lambda>random_start.
               pbind (lift (dict_get json_data ''random_sequence'' (JBool True))) (\<lambda>random_sequence.
               pthen (log_info ''Trimming video in {number_of_clips} parts.'') (
               call ''trim_num_parts''
                 [AStr final_file, AInt number_of_clips, AJson equal_distribution, AInt clip_length,
                  AJson random_start, AJson random_sequence] ATrim
                 (trim_num_parts env final_file number_of_clips equal_distribution clip_length random_start random_sequence)))))))))
     else if trim_type = JStr ''trim_sub_sample'' then
               pbind (lift (subscript json_data ''start_time'')) (\<lambda>start_time.
               pbind (lift (subscript json_data ''end_time'')) (\<lambda>end_time.
               pbind (lift (subscript json_data ''sample_start_time'')) (\<lambda>sample_start_time.
               pbind (lift (subscript json_data ''sample_end_time'')) (\<lambda>sample_end_time.
               pbind (lift (dict_get json_data ''timestamp_format'' (JStr ''%H:%M:%S''))) (\<lambda>timestamp_format.
               pthen (log_info ''Trimming portion of the video as per timestamp.'') (
               call ''trim_sub_sample''
                 [AStr final_file, AJson start_time, AJson end_time, AJson sample_start_time, AJson sample_end_time,
                  AJson timestamp_format] ATrim
                 (trim_sub_sample env final_file start_time end_time sample_start_time sample_end_time timestamp_format)))))))
     else if trim_type = JStr ''trim_by_points'' then
               pbind (lift (dict_get json_data ''point_start_time'' (JInt 0))) (\<lambda>v1.
               pbind (lift (py_int env v1)) (\<lambda>start_time.
               pbind (lift (dict_get json_data ''point_end_time'' (JInt 30))) (\<lambda>v2.
               pbind (lift (py_int env v2)) (\<lambda>end_time.
               pbind (lift (dict_get json_data ''trim_factor'' (JStr ''s''))) (\<lambda>trim_factor.
               pthen (log_info ''Trimming video as per start & end time.'') (
               call ''trim_by_points'' [AStr final_file, AInt start_time, AInt end_time, AJson trim_factor] ATrim
                 (trim_by_points env final_file start_time end_time trim_factor)))))))
     else ret (TList []))"

text \<open>\<open>write_to_db\<close> takes the module's \<open>log\<close> to be a logger.\<close>

fun write_to_db :: "'r env \<Rightarrow> json \<Rightarrow> (string \<times> string \<times> string) list \<Rightarrow> ('r, unit) prog" where
  "write_to_db env order_id [] = ret ()"
| "write_to_db env order_id ((video_file_name, video_url, video_id) # video_obj) =
     pthen
       (try_except
          (call ''create_video_map_obj'' [AJson order_id, AStr video_id, AStr video_url, AStr video_file_name]
             (\<lambda>u. AUnit) (create_video_map_obj env order_id video_id video_url video_file_name))
          (\<lambda>e. if is_Exception e then Some (log_exception e) else None))
       (write_to_db env order_id video_obj)"

definition smash_db :: "'r env \<Rightarrow> json \<Rightarrow> string list \<Rightarrow> string list \<Rightarrow> ('r, unit) prog" where
  "smash_db env order_id videos links =
     write_to_db env order_id (map (\<lambda>(k, v). (basename k, v, path_stem k)) (zip videos links))"

text \<open>
  \<open>spin\<close>, in the order of its statements: the footage is acquired (to line 135),
  prepared (to line 163), processed (to line 183), delivered (to line 206) and the local
  files are cleaned up. The call \<open>track_motion(cloned_file, log=log, debug_mode=False)\<close>
  names a parameter that \<open>track_motion\<close> of core/detect/motion.py does not have, so it
  raises TypeError before the body of \<open>track_motion\<close> runs.
\<close>

definition spin_acquire :: "'r env \<Rightarrow> string \<Rightarrow> ('r, json \<times> string \<times> string \<times> string option) prog" where
  "spin_acquire env json_obj =
     pbind (call ''now'' [] ATime (now env)) (\<lambda>start.
     pbind (lift (json_loads env json_obj)) (\<lambda>json_data.
     pbind (lift (dict_get json_data ''camera_id'' (JInt 0))) (\<lambda>camera_id.
     pthen (log_info ''Video processing engine started spinning for camera {json_data.get('camera_id', 0)}.'') (
     pthen (log_info ''Parsed consumer JSON request.'') (
     pbind (lift (dict_get json_data ''country_code'' (JStr ''xa''))) (\<lambda>country_code.
     pbind (lift (dict_get json_data ''customer_id'' (JInt 0))) (\<lambda>customer_id.
     pbind (lift (dict_get json_data ''contract_id'' (JInt 0))) (\<lambda>contract_id.
     pbind (lift (dict_get json_data ''order_id'' (JInt 0))) (\<lambda>order_id.
     pbind (call ''bucket_name'' [AJson country_code, AJson customer_id, AJson contract_id, AJson order_id] AStr
         (bucket_name env country_code customer_id contract_id order_id)) (\<lambda>bucket.
     pbind (lift (dict_get json_data ''store_id'' (JInt 0))) (\<lambda>store_id.
     pbind (lift (dict_get json_data ''area_code'' (JStr ''e''))) (\<lambda>area_code.
     pbind (lift (dict_get json_data ''camera_id'' (JInt 0))) (\<lambda>camera_id.
     pbind (call ''order_name'' [AJson store_id, AJson area_code, AJson camera_id, ATime start] AStr
         (order_name env store_id area_code camera_id start)) (\<lambda>order.
     pbind (lift (dict_get json_data ''use_stored'' (JBool False))) (\<lambda>use_stored.
     if truthy use_stored then
               pbind (lift (subscript json_data ''sub_json'')) (\<lambda>sub_json.
               pbind (lift (subscript sub_json ''stored_filename'')) (\<lambda>stored_filename.
               pthen (log_info ''Using downloaded video for this order.'') (
               pbind (isfile (path_join (downloads env) (py_str (str_other env) stored_filename @ ''.mp4''))) (\<lambda>present.
               if \<not> present then
                 pthen (log_error ''File not selected for processing.'')
                   (throw (Exception ''[e] File not selected for processing.''))
               else ret (json_data, bucket, order, Some (path_join (downloads env) (py_str (str_other env) stored_filename @ ''.mp4'')))))))
     else
               pthen (log_info ''Recording from live camera for this order.'') (
               pbind (lift (subscript json_data ''start_time'')) (\<lambda>start_time.
               pbind (lift (subscript json_data ''end_time'')) (\<lambda>end_time.
               pbind (lift (dict_get json_data ''camera_timezone'' (JStr ''UTC''))) (\<lambda>camera_timezone.
               pbind (lift (subscript json_data ''camera_address'')) (\<lambda>camera_address.
               pbind (lift (dict_get json_data ''camera_username'' (JStr ''admin''))) (\<lambda>camera_username.
               pbind (lift (subscript json_data ''camera_password'')) (\<lambda>camera_password.
               pbind (lift (dict_get json_data ''camera_port'' (JInt 554))) (\<lambda>v1.
               pbind (lift (py_int env v1)) (\<lambda>camera_port.
               pbind (lift (dict_get json_data ''camera_timeout'' (JFloat 30))) (\<lambda>v2.
               pbind (lift (py_float env v2)) (\<lambda>camera_timeout.
               pbind (lift (dict_get json_data ''timestamp_format'' (JStr ''%H:%M:%S''))) (\<lambda>timestamp_format.
               pbind (call ''trigger_utc_capture''
       [AStr bucket, AStr order, AJson start_time, AJson end_time, AJson camera_timezone, AJson camera_address,
        AJson camera_username, AJson camera_password, AInt camera_port, AReal camera_timeout, AJson timestamp_format]
       AOpt
       (trigger_utc_capture env bucket order start_time end_time camera_timezone camera_address camera_username
          camera_password camera_port camera_timeout timestamp_format)) (\<lambda>original_file.
               ret (json_data, bucket, order, original_file)))))))))))))))))))))))))))))"

definition spin_prepare ::
  "'r env \<Rightarrow> json \<Rightarrow> string \<Rightarrow> string \<Rightarrow> string option \<Rightarrow> ('r, string \<times> string \<times> string) prog" where
  "spin_prepare env json_data bucket order original_file =
     pbind (call ''rename_original_file'' [AOpt original_file, AStr bucket, AStr order] AStr
         (rename_original_file env original_file bucket order)) (\<lambda>cloned_file.
     pthen (log_info ''Created backup of the original video.'') (
     pbind (call ''create_copy'' [AStr cloned_file] AStr (create_copy env cloned_file)) (\<lambda>archived.
     pbind (lift (subscript json_data ''sampling_rate'')) (\<lambda>v1.
     pbind (lift (py_float env v1)) (\<lambda>sampling_rate.
     pbind (call ''completion_time_calculator'' [AStr cloned_file, AReal sampling_rate] AStr
         (completion_time_calculator env cloned_file sampling_rate)) (\<lambda>eta.
     pthen (log_info ''Commencing core processes, estimated time of completion is {completion_time_calculator(cloned_file, sampling_rate)}.'') (
     pbind (lift (dict_get json_data ''analyze_motion'' (JBool False))) (\<lambda>analyze_motion.
     pthen (if truthy analyze_motion then throw TypeError else log_info ''Skipping motion analysis.'') (
     pthen (log_info ''Randomly sampling {sampling_rate}% of the original video.'') (
     pbind (call ''trim_sample_section'' [AStr cloned_file, AReal sampling_rate] AStr
         (trim_sample_section env cloned_file sampling_rate)) (\<lambda>temp.
     pbind (lift (dict_get json_data ''analyze_face'' (JBool False))) (\<lambda>analyze_face.
     pthen (if truthy analyze_face then
          pbind (call ''redact_faces'' [AStr cloned_file] AStr (redact_faces env cloned_file)) (\<lambda>redacted.
          pthen (log_info ''Fixing up the symbolic link of the redacted video.'') (
          pthen (shutil_move redacted cloned_file) (
          pthen (log_info ''Symbolic link has been restored for the redacted video.'') (
          ret ()))))
     else log_info ''Skipping face redaction.'') (
     ret (cloned_file, temp, archived))))))))))))))"

definition spin_process :: "'r env \<Rightarrow> json \<Rightarrow> string \<Rightarrow> ('r, string list) prog" where
  "spin_process env json_data cloned_file =
     pbind (lift (dict_get json_data ''perform_compression'' (JBool True))) (\<lambda>perform_compression.
     pbind (lift (dict_get json_data ''perform_trimming'' (JBool True))) (\<lambda>perform_trimming.
     pbind (if truthy perform_trimming then lift (dict_get json_data ''trim_compressed'' (JBool True)) else ret (JBool False)) (\<lambda>trim_compressed.
     pthen (log_info ''Renaming original video as per internal nomenclature.'') (
     pbind (call ''video_type'' [AJson perform_compression, AJson perform_trimming, AJson trim_compressed] AStr
         (video_type env perform_compression perform_trimming trim_compressed)) (\<lambda>suffix.
     pbind (call ''rename_aaaa_file'' [AStr cloned_file, AStr suffix] AStr (rename_aaaa_file env cloned_file suffix)) (\<lambda>renamed.
     pbind (if truthy perform_compression then
         pthen (log_info ''Compressing video as required.'')
           (pbind (call ''compress_video'' [AStr renamed] AStr (compress_video env renamed)) (\<lambda>final_file.
            if truthy trim_compressed then trimming_callable env json_data final_file else ret (TList [])))
       else if truthy perform_trimming then trimming_callable env json_data renamed
       else ret (TList [])) (\<lambda>trim_upload.
     lift (py_extend [renamed] trim_upload))))))))"

text \<open>\<open>for idx, file in enumerate(upload_list)\<close>: upload, keep the URL, log.\<close>

fun upload_all :: "'r env \<Rightarrow> string \<Rightarrow> string list \<Rightarrow> ('r, string list) prog" where
  "upload_all env bucket [] = ret []"
| "upload_all env bucket (file # files) =
     pbind (call ''upload_to_bucket'' [AStr (access_key env), AStr (secret_key env), AStr bucket, AStr file] AStr
              (upload_to_bucket env (access_key env) (secret_key env) bucket file)) (\<lambda>link.
     pthen (log_info ''Uploaded {idx + 1}/{len(upload_list)} > {os.path.basename(file)} on to S3 bucket.'') (
     pbind (upload_all env bucket files) (\<lambda>links.
     ret (link # links))))"

definition spin_deliver :: "'r env \<Rightarrow> json \<Rightarrow> string \<Rightarrow> string list \<Rightarrow> ('r, string list) prog" where
  "spin_deliver env json_data bucket files =
     pthen (try_except
         (pthen (call ''create_s3_bucket'' [AStr (access_key env), AStr (secret_key env), AStr bucket] (\<lambda>u. AUnit)
                   (create_s3_bucket env (access_key env) (secret_key env) bucket))
            (log_info ''Created bucket on Amazon S3 for this order.''))
         (\<lambda>e. if is_Exception e then Some (ret ()) else None)) (
     pthen (log_info ''Uploading video to the S3 bucket.'') (
     pbind (upload_all env bucket files) (\<lambda>urls.
     pthen (log_info ''Exporting public URLs.'') (
     pthen (csv_append (path_join (reports env) (bucket @ ''.csv'')) urls) (
     pbind (lift (dict_get json_data ''order_pk'' (JInt 0))) (\<lambda>order_pk.
     pthen (smash_db env order_pk files urls) (
     pthen (log_info ''Written values into the database.'') (
     ret urls))))))))"

text \<open>\<open>for idx, file in enumerate(temp_list)\<close>: remove, log.\<close>

fun remove_all :: "string list \<Rightarrow> ('r, unit) prog" where
  "remove_all [] = ret ()"
| "remove_all (file # files) =
     pthen (os_remove file)
       (pthen (log_warning ''Removed file {idx + 1}/{len(temp_list)} > {os.path.basename(file)} from current machine.'')
          (remove_all files))"

definition spin_cleanup :: "string list \<Rightarrow> ('r, unit) prog" where
  "spin_cleanup temps = pthen (log_info ''Cleaning up the directory.'') (remove_all temps)"

text \<open>The lists \<open>spin\<close> holds when the cleanup begins (after line 206).\<close>

record spin_locals =
  upload_list :: "string list"
  temp_list :: "string list"
  urls :: "string list"
  archived_file :: string

definition spin_main :: "'r env \<Rightarrow> string \<Rightarrow> ('r, spin_locals) prog" where
  "spin_main env json_obj =
     pbind (spin_acquire env json_obj) (\<lambda>acquired.
     pbind (case acquired of (json_data, bucket, order, original_file) \<Rightarrow>
          pbind (spin_prepare env json_data bucket order original_file) (\<lambda>p. ret (json_data, bucket, p))) (\<lambda>prepared.
     pbind (case prepared of (json_data, bucket, cloned_file, temp, archived) \<Rightarrow>
          pbind (spin_process env json_data cloned_file) (\<lambda>files. ret (json_data, bucket, temp, archived, files))) (\<lambda>processed.
     pbind (case processed of (json_data, bucket, temp, archived, files) \<Rightarrow>
          pbind (spin_deliver env json_data bucket files) (\<lambda>links. ret (temp, archived, files, links))) (\<lambda>delivered.
     case delivered of (temp, archived, files, links) \<Rightarrow>
       ret \<lparr>upload_list = files, temp_list = temp # files, urls = links, archived_file = archived\<rparr>))))"

text \<open>The body of the \<open>try\<close>, and \<open>spin\<close> with its two handlers. \<open>exit(0)\<close> raises
  \<open>SystemExit(0)\<close>.\<close>

definition spin_try :: "'r env \<Rightarrow> string \<Rightarrow> ('r, spin_locals) prog" where
  "spin_try env json_obj =
     pbind (spin_main env json_obj) (\<lambda>locals.
     pthen (spin_cleanup (temp_list locals)) (
     pbind (call ''now'' [] ATime (now env)) (\<lambda>finish.
     pthen (log_info ''Total time taken for processing this order was {now() - start}.'') (
     ret locals))))"

definition spin :: "'r env \<Rightarrow> string \<Rightarrow> ('r, unit) prog" where
  "spin env json_obj =
     try_except
       (pbind (spin_try env json_obj) (\<lambda>locals. ret ()))
       (\<lambda>e. if e = KeyboardInterrupt then
              Some (pthen (log_error ''Video processing engine interrupted.'') (throw (SystemExit 0)))
            else if is_Exception e then
              Some (pthen (log_exception e)
                      (log_critical ''Something went wrong while video processing was running.''))
            else None)"

section \<open>A concrete installation, for evaluating the model\<close>

text \<open>
  Simple stand-ins for the parameters: every helper succeeds, and the helpers that
  produce a file put it on the disk. \<open>demo_loads\<close> knows the text of a few messages.
\<close>

definition touch :: "string \<Rightarrow> (string \<rightharpoonup> string) \<Rightarrow> (string \<rightharpoonup> string)" where
  "touch path d = d(path \<mapsto> ''v'')"

definition stored_job :: json where
  "stored_job = JDict
     [(''use_stored'', JBool True), (''sub_json'', JDict [(''stored_filename'', JStr ''clip'')]),
      (''sampling_rate'', JInt 10), (''analyze_motion'', JBool False), (''analyze_face'', JBool False),
      (''perform_compression'', JBool True), (''perform_trimming'', JBool False)]"

definition trimmed_job :: json where
  "trimmed_job = JDict
     [(''use_stored'', JBool True), (''sub_json'', JDict [(''stored_filename'', JStr ''clip'')]),
      (''sampling_rate'', JInt 10), (''perform_compression'', JBool False),
      (''trim_type'', JStr ''trim_by_points'')]"

definition demo_loads :: "string \<Rightarrow> exn + json" where
  "demo_loads text =
     (case map_of
        [(''stored'', stored_job),
         (''trimmed'', trimmed_job),
         (''gcp'', JDict [(''access_type'', JStr ''GCP''), (''g_url'', JStr ''https://drive.google.com/open?id=F''),
                          (''stored_filename'', JStr ''clip'')]),
         (''tool'', JDict [(''access_type'', JStr ''FTP TOOL''), (''stored_filename'', JStr ''clip'')]),
         (''other'', JDict [(''access_type'', JStr ''HTTP''), (''stored_filename'', JStr ''clip'')])] text of
        None \<Rightarrow> Inl (ValueError ''Expecting value'')
      | Some v \<Rightarrow> Inr v)"

definition demo_int :: "json \<Rightarrow> exn + int" where
  "demo_int v = (case v of JInt n \<Rightarrow> Inr n | JBool b \<Rightarrow> Inr (if b then 1 else 0) | _ \<Rightarrow> Inl TypeError)"

definition demo_float :: "json \<Rightarrow> exn + real" where
  "demo_float v = (case v of JInt n \<Rightarrow> Inr (of_int n) | JFloat r \<Rightarrow> Inr r | _ \<Rightarrow> Inl TypeError)"

definition body_of :: "nat \<Rightarrow> response" where
  "body_of n = \<lparr>cookies = [], chunks = [replicate n (CHR ''x'')], broken = None\<rparr>"

definition demo_env :: "unit env" where
  "demo_env = \<lparr>
     lib = py_urllib,
     str_other = (\<lambda>v. ''?''),
     num_text = (\<lambda>x. ''n''),
     size_text = (\<lambda>n. if n = 300 then ''300.0'' else ''2.0''),
     py_int = demo_int,
     py_float = demo_float,
     json_loads = demo_loads,
     strptime_stamp = (\<lambda>t. Inr 2000),
     os_name = ''posix'',
     parent_path = ''/v'',
     live_path = ''/v/live'',
     DRIVE_DOWNLOAD_URL = ''https://drive/uc'',
     access_key = ''key'',
     secret_key = ''secret'',
     os_system = (\<lambda>command d r. (Inr 0, d, r)),
     isdir = (\<lambda>path d r. (Inr False, d, r)),
     mkdir = (\<lambda>path d r. (Inr (), d, r)),
     sleep = (\<lambda>secs d r. (Inr (), d, r)),
     today = (\<lambda>d r. (Inr ''2020-03-18'', d, r)),
     requests_get = (\<lambda>link params d r. (Inr (body_of 2048), d, r)),
     blob_client = (\<lambda>conn container blob. None),
     download_blob = (\<lambda>conn container blob d r. (Inr (body_of 2048), d, r)),
     clip_duration = (\<lambda>file d r. (Inr 60, d, r)),
     access_file_update = (\<lambda>a b c f g d r. (Inr (), d, r)),
     now = (\<lambda>d r. (Inr \<lparr>stamp = 1000, second = 7\<rparr>, d, r)),
     calculate_duration = (\<lambda>a b f secs d r. (Inr 120, d, r)),
     video_type = (\<lambda>a b c d r. (Inr ''_x'', d, r)),
     timestamp_dirname = (\<lambda>d r. (Inr ''t0'', d, r)),
     configure_camera_url = (\<lambda>a u p n d r. (Inr ''rtsp://cam'', d, r)),
     camera_live = (\<lambda>a p t d r. (Inr True, d, r)),
     filename = (\<lambda>file n d r. (Inr ''/v/live/seg.mp4'', d, r)),
     concate_videos = (\<lambda>dir del d r. (Inr ''/v/live/out.mp4'', touch ''/v/live/out.mp4'' d, r)),
     bucket_name = (\<lambda>a b c e d r. (Inr ''bkt'', d, r)),
     order_name = (\<lambda>a b c t d r. (Inr ''ord'', d, r)),
     trigger_utc_capture = (\<lambda>b q s e z a u p n t f d r. (Inr (Some ''/v/live/raw.mp4''), touch ''/v/live/raw.mp4'' d, r)),
     rename_original_file = (\<lambda>file b q d r. (Inr ''/w/clone.mp4'', touch ''/w/clone.mp4'' d, r)),
     create_copy = (\<lambda>file d r. (Inr ''/w/copy.mp4'', touch ''/w/copy.mp4'' d, r)),
     completion_time_calculator = (\<lambda>file rate d r. (Inr ''soon'', d, r)),
     trim_sample_section = (\<lambda>file rate d r. (Inr ''/w/sample.mp4'', touch ''/w/sample.mp4'' d, r)),
     redact_faces = (\<lambda>file d r. (Inr ''/w/red.mp4'', touch ''/w/red.mp4'' d, r)),
     rename_aaaa_file = (\<lambda>file suffix d r. (Inr ''/w/final.mp4'', touch ''/w/final.mp4'' (d(file := None)), r)),
     compress_video = (\<lambda>file d r. (Inr ''/w/small.mp4'', touch ''/w/small.mp4'' d, r)),
     trim_by_factor = (\<lambda>file f n l d r. (Inr (TList [''/w/t1.mp4'']), touch ''/w/t1.mp4'' d, r)),
     trim_num_parts = (\<lambda>file n e l s q d r. (Inr (TList [''/w/t1.mp4'']), touch ''/w/t1.mp4'' d, r)),
     trim_sub_sample = (\<lambda>file a b c e f d r. (Inr (TList [''/w/t1.mp4'']), touch ''/w/t1.mp4'' d, r)),
     trim_by_points = (\<lambda>file a b f d r. (Inr (TList [''/w/t1.mp4'']), touch ''/w/t1.mp4'' d, r)),
     create_s3_bucket = (\<lambda>k s b d r. (Inr (), d, r)),
     upload_to_bucket = (\<lambda>k s b file d r. (Inr (''s3:'' @ basename file), d, r)),
     create_video_map_obj = (\<lambda>order_id video_id link name d r. (Inr (), d, r))
   \<rparr>"

text \<open>The machine before a job: the stored clip is in the downloads directory.\<close>

definition demo_state :: "unit state" where
  "demo_state = \<lparr>disk = [''/v/downloads/clip.mp4'' \<mapsto> ''v''], outside = (), journal = []\<rparr>"

text \<open>The operator interrupts the first upload.\<close>

definition interrupted_env :: "unit env" where
  "interrupted_env = demo_env\<lparr>upload_to_bucket := (\<lambda>k s b file d r. (Inl KeyboardInterrupt, d, r))\<rparr>"

text \<open>The network is down: every request fails.\<close>

definition offline_env :: "unit env" where
  "offline_env = demo_env\<lparr>requests_get := (\<lambda>link params d r. (Inl RequestException, d, r))\<rparr>"

text \<open>The servers answer with 300 bytes, and the copy over the network leaves 300
  bytes at the target.\<close>

definition small_env :: "unit env" where
  "small_env = demo_env\<lparr>
     requests_get := (\<lambda>link params d r. (Inr (body_of 300), d, r)),
     download_blob := (\<lambda>conn container blob d r. (Inr (body_of 300), d, r)),
     os_system := (\<lambda>command d r. (Inr 0, d(''/v/downloads/clip.mp4'' \<mapsto> replicate 300 (CHR ''x'')), r))\<rparr>"

text \<open>The transcoder leaves a segment of \<open>n\<close> bytes.\<close>

definition segment_env :: "nat \<Rightarrow> unit env" where
  "segment_env n = demo_env\<lparr>
     os_system := (\<lambda>command d r. (Inr 0, d(''/v/live/seg.mp4'' \<mapsto> replicate n (CHR ''x'')), r))\<rparr>"

section \<open>Reading the message and the journal\<close>

text \<open>\<open>json_data.get(k, None)\<close> on a dict with the items \<open>kvs\<close>.\<close>

definition get_or_none :: "(string \<times> json) list \<Rightarrow> string \<Rightarrow> json" where
  "get_or_none kvs k = (case map_of kvs k of None \<Rightarrow> JNull | Some v \<Rightarrow> v)"


text \<open>The calls to the function \<open>name\<close> in a journal, oldest first: the arguments and
  the outcome of each. \<open>trim_calls\<close> are the calls to the four trimming strategies.\<close>

definition calls :: "string \<Rightarrow> event list \<Rightarrow> (arg list \<times> (exn + arg)) list" where
  "calls name evs =
     concat (map (\<lambda>ev. case ev of
                          Call n args out \<Rightarrow> if n = name then [(args, out)] else []
                        | _ \<Rightarrow> []) evs)"

definition trim_calls :: "event list \<Rightarrow> (arg list \<times> (exn + arg)) list" where
  "trim_calls evs =
     concat (map (\<lambda>ev. case ev of
                          Call n args out \<Rightarrow>
                            if n = ''trim_by_factor'' \<or> n = ''trim_num_parts'' \<or> n = ''trim_sub_sample''
                               \<or> n = ''trim_by_points''
                            then [(args, out)] else []
                        | _ \<Rightarrow> []) evs)"

text \<open>A program is quiet about a function when it adds no call to it to the journal.\<close>

definition quiet :: "string \<Rightarrow> ('r, 'a) prog \<Rightarrow> bool" where
  "quiet name m = (\<forall>s. calls name (journal (snd (m s))) = calls name (journal s))"

section \<open>How programs run\<close>

lemma ret_apply: "ret x s = (Inr x, s)"
  by (simp add: ret_def)

lemma throw_apply: "throw e s = (Inl e, s)"
  by (simp add: throw_def)

lemma lift_apply: "lift v s = (v, s)"
  by (simp add: lift_def)

lemma record_event_apply: "record_event ev s = (Inr (), s\<lparr>journal := journal s @ [ev]\<rparr>)"
  by (simp add: record_event_def)

lemmas log_defs = log_info_def log_warning_def log_error_def log_critical_def log_exception_def

lemma pbind_lift_Inr: "pbind (lift (Inr x)) f = f x"
  by (rule ext) (simp add: pbind_def lift_def)

lemma pbind_lift_Inl: "pbind (lift (Inl e)) f = throw e"
  by (rule ext) (simp add: pbind_def lift_def throw_def)

lemma pbind_ret: "pbind (ret x) f = f x"
  by (rule ext) (simp add: pbind_def ret_def)

lemma pbind_throw: "pbind (throw e) f = throw e"
  by (rule ext) (simp add: pbind_def throw_def)

lemma pbind_Inr:
  "pbind m f s = (Inr b, s') \<longleftrightarrow> (\<exists>a s1. m s = (Inr a, s1) \<and> f a s1 = (Inr b, s'))"
  by (auto simp: pbind_def split: prod.splits sum.splits)

lemma pthen_Inr:
  "pthen m k s = (Inr b, s') \<longleftrightarrow> (\<exists>a s1. m s = (Inr a, s1) \<and> k s1 = (Inr b, s'))"
  by (simp add: pthen_def pbind_Inr)

lemma pbind_Inl:
  "pbind m f s = (Inl e, s') \<longleftrightarrow>
     m s = (Inl e, s') \<or> (\<exists>a s1. m s = (Inr a, s1) \<and> f a s1 = (Inl e, s'))"
  by (auto simp: pbind_def split: prod.splits sum.splits)

lemma try_except_Inr:
  "try_except m h s = (Inr b, s') \<longleftrightarrow>
     m s = (Inr b, s') \<or> (\<exists>e s1 k. m s = (Inl e, s1) \<and> h e = Some k \<and> k s1 = (Inr b, s'))"
  by (auto simp: try_except_def split: prod.splits sum.splits option.splits)

section \<open>The file name of a URL\<close>

lemma basename_idem: "basename (basename p) = basename p"
  by (simp add: basename_def takeWhile_eq_all_conv)

lemma urlsplit_example: "py_urlsplit_path ''https://host/path/a%20b.mp4?x=1'' = Inr ''/path/a%20b.mp4''"
  by code_simp

lemma unquote_examples:
  "py_unquote ''/path/a%20b.mp4'' = ''/path/a b.mp4''"
  "py_unquote ''a%20b.mp4'' = ''a b.mp4''"
  by code_simp+

text \<open>
  Claim C4. Whatever \<open>urlsplit\<close> and \<open>unquote\<close> compute: when the URL has the path \<open>p\<close>,
  and the decoded last segment \<open>basename (unquote p)\<close> is its own basename and equals the
  decoding of the last segment of \<open>p\<close>, \<open>filename_from_url\<close> returns that decoded
  segment; when one of the two checks fails, it raises the ValueError of the source (the
  spec's InvalidInput). With the library model, \<open>https://host/path/video.mp4\<close> yields
  \<open>video.mp4\<close>, and a URL with an encoded separator in its last segment is refused.
\<close>

theorem filename_from_url_checks:
  "(urlsplit_path L u = Inr p \<and> basename (basename (unquote L p)) = basename (unquote L p)
      \<and> unquote L (basename p) = basename (unquote L p)
      \<longrightarrow> filename_from_url L u = Inr (basename (unquote L p)))
   \<and> (urlsplit_path L u = Inr p
      \<and> (basename (basename (unquote L p)) \<noteq> basename (unquote L p)
           \<or> unquote L (basename p) \<noteq> basename (unquote L p))
      \<longrightarrow> filename_from_url L u = Inl (ValueError ''[e] URL has invalid characters. Cannot parse the same.''))
   \<and> filename_from_url py_urllib ''https://host/path/video.mp4'' = Inr ''video.mp4''
   \<and> filename_from_url py_urllib ''https://host/path/a%2Fb.mp4''
       = Inl (ValueError ''[e] URL has invalid characters. Cannot parse the same.'')"
proof -
  have plain: "filename_from_url py_urllib ''https://host/path/video.mp4'' = Inr ''video.mp4''"
    by code_simp
  have encoded: "filename_from_url py_urllib ''https://host/path/a%2Fb.mp4''
       = Inl (ValueError ''[e] URL has invalid characters. Cannot parse the same.'')"
    by code_simp
  show ?thesis
    using plain encoded by (simp add: filename_from_url_def Let_def)
qed

theorem filename_from_url_checks_witness:
  "filename_from_url py_urllib ''https://host/path/a%20b.mp4?x=1'' = Inr ''a b.mp4''"
  using filename_from_url_checks [of py_urllib "''https://host/path/a%20b.mp4?x=1''" "''/path/a%20b.mp4''"]
    urlsplit_example unquote_examples
  by (simp add: py_urllib_def basename_def)

section \<open>The dispatch of download jobs\<close>

lemma loads_other:
  "json_loads demo_env ''other''
     = Inr (JDict [(''access_type'', JStr ''HTTP''), (''stored_filename'', JStr ''clip'')])"
  by (simp add: demo_env_def demo_loads_def)

text \<open>
  Claim C5. For a message that parses to a dict, \<open>compute\<close> is the connector of its
  \<open>access_type\<close>, called with the fields of the message after one log record, its result
  dropped: the Google Drive downloader for \<open>GCP\<close>, the Azure downloader for \<open>Microsoft\<close>,
  the FTP fetcher for \<open>FTP\<close>, the S3 ingest for \<open>S3\<close>, and for \<open>FTP TOOL\<close> the branch that
  only joins a path. For every other \<open>access_type\<close> it returns at once: the state is
  unchanged and no exception is raised.
\<close>

theorem compute_dispatch:
  "json_loads env msg = Inr (JDict kvs) \<Longrightarrow>
   (get_or_none kvs ''access_type'' = JStr ''GCP'' \<longrightarrow>
      compute env msg =
        pthen (log_info ''Download file via Google Drive.'')
          (pbind (download_from_google_drive env (get_or_none kvs ''g_url'')
                    (get_or_none kvs ''stored_filename'') (downloads env)) (\<lambda>result. ret ())))
 \<and> (get_or_none kvs ''access_type'' = JStr ''Microsoft'' \<longrightarrow>
      compute env msg =
        pthen (log_info ''Download file via Microsoft Azure.'')
          (pbind (download_from_azure env (get_or_none kvs ''azure_account_name'')
                    (get_or_none kvs ''azure_account_key'') (get_or_none kvs ''azure_container_name'')
                    (get_or_none kvs ''azure_blob_name'') (get_or_none kvs ''stored_filename'')
                    (downloads env)) (\<lambda>result. ret ())))
 \<and> (get_or_none kvs ''access_type'' = JStr ''FTP'' \<longrightarrow>
      compute env msg =
        pthen (log_info ''Transfer file via FTP.'')
          (pbind (download_using_ftp env (get_or_none kvs ''remote_username'')
                    (get_or_none kvs ''remote_password'') (get_or_none kvs ''remote_public_address'')
                    (get_or_none kvs ''remote_file'') (get_or_none kvs ''stored_filename'')
                    (downloads env)) (\<lambda>result. ret ())))
 \<and> (get_or_none kvs ''access_type'' = JStr ''S3'' \<longrightarrow>
      compute env msg =
        pthen (log_info ''Download file via Amazon S3 storage.'')
          (pbind (call ''access_file_update''
                    [AJson (get_or_none kvs ''s3_access_key''), AJson (get_or_none kvs ''s3_secret_key''),
                     AJson (get_or_none kvs ''s3_url''), AJson (get_or_none kvs ''stored_filename''),
                     AJson (get_or_none kvs ''s3_bucket_name'')] (\<lambda>u. AUnit)
                    (access_file_update env (get_or_none kvs ''s3_access_key'')
                       (get_or_none kvs ''s3_secret_key'') (get_or_none kvs ''s3_url'')
                       (get_or_none kvs ''stored_filename'') (get_or_none kvs ''s3_bucket_name'')))
             (\<lambda>result. ret ())))
 \<and> (get_or_none kvs ''access_type'' = JStr ''FTP TOOL'' \<longrightarrow>
      compute env msg =
        pthen (log_info ''Transfer file via TeamViewer (FTP Tool).'')
          (pbind (lift (os_path_join (downloads env) (get_or_none kvs ''stored_filename'')))
             (\<lambda>joined. ret ())))
 \<and> (get_or_none kvs ''access_type'' \<notin>
        {JStr ''GCP'', JStr ''Microsoft'', JStr ''FTP'', JStr ''S3'', JStr ''FTP TOOL''} \<longrightarrow>
      (\<forall>s. compute env msg s = (Inr (), s)))"
  by (simp add: compute_def get_or_none_def pbind_lift_Inr ret_apply)

theorem compute_dispatch_witness:
  "compute demo_env ''other'' demo_state = (Inr (), demo_state)"
  using compute_dispatch [OF loads_other] by (simp add: get_or_none_def)

end
